theory Spec2Isabelle
  imports Main "HOL-Library.Sublist" "HOL-Library.Word"
begin

section \<open>Strings\<close>

text \<open>
  A JavaScript string is a sequence of UTF-16 code units; a code unit is modelled by its
  number. \<open>lit\<close> turns an ASCII literal of the source into such a sequence, and the
  pictographs the source puts in front of its messages are given by their code units.
\<close>

type_synonym jsstring = "nat list"

definition lit :: "string \<Rightarrow> jsstring" where
  "lit s = map of_char s"

definition warning_sign :: jsstring where
  "warning_sign = [0x26A0, 0xFE0F]"

definition cross_mark :: jsstring where
  "cross_mark = [0x274C]"

definition check_mark :: jsstring where
  "check_mark = [0x2705]"

definition alarm_clock :: jsstring where
  "alarm_clock = [0x23F0]"

definition thinking_face :: jsstring where
  "thinking_face = [0xD83E, 0xDD14]"

definition studio_microphone :: jsstring where
  "studio_microphone = [0xD83C, 0xDFA4]"

text \<open>
  \<open>String.prototype.trim\<close> removes, at both ends, the code units of ECMAScript's WhiteSpace
  and LineTerminator productions.
\<close>

definition is_js_whitespace :: "nat \<Rightarrow> bool" where
  "is_js_whitespace c =
     (c = 0x9 \<or> c = 0xA \<or> c = 0xB \<or> c = 0xC \<or> c = 0xD \<or> c = 0x20 \<or> c = 0xA0
      \<or> c = 0x1680 \<or> (0x2000 \<le> c \<and> c \<le> 0x200A) \<or> c = 0x2028 \<or> c = 0x2029
      \<or> c = 0x202F \<or> c = 0x205F \<or> c = 0x3000 \<or> c = 0xFEFF)"

definition trim :: "jsstring \<Rightarrow> jsstring" where
  "trim s = rev (dropWhile is_js_whitespace (rev (dropWhile is_js_whitespace s)))"

text \<open>
  \<open>toLowerCase\<close>, on the letters A to Z. The source only asks whether the lowered text
  contains \<open>remind\<close>, and for that test the other letters do not matter: the one
  character outside A to Z whose lower case holds one of these six letters is U+0130, which
  lowers to \<open>i\<close> followed by a combining dot, so that no \<open>n\<close> can follow it.
\<close>

definition toLowerCase :: "jsstring \<Rightarrow> jsstring" where
  "toLowerCase s = map (\<lambda>c. if 0x41 \<le> c \<and> c \<le> 0x5A then c + 0x20 else c) s"

definition js_includes :: "jsstring \<Rightarrow> jsstring \<Rightarrow> bool" where
  "js_includes s t = sublist t s"

text \<open>
  A reminder id is a number of the server's, interpolated into a template literal. The
  model takes the ids to be the non-negative integers that a JavaScript number holds
  exactly, those below \<open>2\<^sup>5\<^sup>3\<close>; for these, and not above, the interpolated text is the
  decimal digits. \<open>decimal\<close> gives the digits of a natural number, \<open>number_text\<close> the text
  of an id.
\<close>

type_synonym safe_integer = "53 word"

fun decimal :: "nat \<Rightarrow> jsstring" where
  "decimal n = (if n < 10 then [0x30 + n] else decimal (n div 10) @ [0x30 + n mod 10])"

declare decimal.simps [simp del]

definition number_text :: "safe_integer \<Rightarrow> jsstring" where
  "number_text n = decimal (unat n)"

text \<open>
  \<open>escapeHtml\<close> assigns the text to \<open>textContent\<close> of a fresh element and reads
  \<open>innerHTML\<close> back: the serialisation of a text node, which replaces the ampersand,
  the non-breaking space and the two angle brackets.
\<close>

fun escapeHtml :: "jsstring \<Rightarrow> jsstring" where
  "escapeHtml [] = []"
| "escapeHtml (c # cs) =
     (if c = 0x26 then lit ''&amp;''
      else if c = 0xA0 then lit ''&nbsp;''
      else if c = 0x3C then lit ''&lt;''
      else if c = 0x3E then lit ''&gt;''
      else [c]) @ escapeHtml cs"

section \<open>Configuration\<close>

definition API_BASE_URL :: jsstring where
  "API_BASE_URL = lit ''http://localhost:5000''"

definition ENDPOINT_PROCESS :: jsstring where
  "ENDPOINT_PROCESS = lit ''/process''"

definition ENDPOINT_HISTORY :: jsstring where
  "ENDPOINT_HISTORY = lit ''/history''"

definition ENDPOINT_HEALTH :: jsstring where
  "ENDPOINT_HEALTH = lit ''/health''"

definition ENDPOINT_REMINDERS :: jsstring where
  "ENDPOINT_REMINDERS = lit ''/reminders''"

definition ENDPOINT_TRIGGER_POPUP :: jsstring where
  "ENDPOINT_TRIGGER_POPUP = lit ''/trigger_popup''"

section \<open>State\<close>

text \<open>
  One entry of \<open>state.conversationHistory\<close>. The assistant text is \<open>data.response\<close>,
  which the server may leave out.
\<close>

record turn =
  user :: jsstring
  assistant :: "jsstring option"
  timestamp :: jsstring

text \<open>
  One entry of \<open>state.reminders\<close>: the members \<open>id\<close>, \<open>time\<close> and \<open>text\<close> of a reminder
  as the server lists it.
\<close>

record reminder =
  reminder_id :: safe_integer
  reminder_time :: jsstring
  reminder_text :: jsstring

datatype severity = Info | Success | Warning | Error

datatype sender = User | Assistant

text \<open>A message appended to the chat container: its text, its sender, the error flag.\<close>

record chat_message =
  content :: "jsstring option"
  from_sender :: sender
  is_error :: bool

datatype http_method = GET | POST | DELETE

text \<open>
  A call of \<open>fetch\<close>: method, URL and, for the command call, the \<open>command\<close> member of the
  JSON body.
\<close>

datatype request = Fetch http_method jsstring "jsstring option"

text \<open>
  What a call of \<open>fetch\<close> settles to: the promise rejects, or it resolves to a response
  with its \<open>ok\<close> flag and its body. The body is \<open>None\<close> when \<open>response.json()\<close> rejects, or
  yields a value whose members cannot be read.
\<close>

datatype 'a fetch_result = NetworkError | Response bool "'a option"

text \<open>
  The program's \<open>state\<close> object (the first seven fields), the parts of the page it writes,
  the effects it has had on the outside (network calls, toasts, popups, utterances, timers,
  recognition sessions), and the two capabilities of the platform it asks for.
\<close>

record app_state =
  isListening :: bool
  isProcessing :: bool
  apiConnected :: bool
  conversationHistory :: "turn list"
  reminders :: "reminder list"
  messageCount :: nat
  voiceCount :: nat
  userInput :: jsstring
  chat :: "chat_message list"
  welcomeShown :: bool
  statusText :: jsstring
  statusDotDisconnected :: bool
  loadingShown :: bool
  loadingText :: jsstring
  voiceButtonListening :: bool
  remindersList :: "jsstring option"
  messageCountShown :: "nat option"
  voiceCountShown :: "nat option"
  requests :: "request list"
  toasts :: "(jsstring \<times> severity) list"
  popups :: "jsstring list"
  utterances :: "jsstring list"
  refreshTimers :: "nat list"
  recognitionStarts :: nat
  hasSpeechSynthesis :: bool
  hasSpeechRecognition :: bool

section \<open>Speech output, notifications and rendering helpers\<close>

definition speakText :: "jsstring \<Rightarrow> app_state \<Rightarrow> app_state" where
  "speakText t s =
     (if \<not> hasSpeechSynthesis s then s
      else if trim t = [] then s
      else s\<lparr>utterances := utterances s @ [t]\<rparr>)"

definition showToast :: "jsstring \<Rightarrow> severity \<Rightarrow> app_state \<Rightarrow> app_state" where
  "showToast message type s = s\<lparr>toasts := toasts s @ [(message, type)]\<rparr>"

definition showReminderPopup :: "jsstring \<Rightarrow> app_state \<Rightarrow> app_state" where
  "showReminderPopup message s =
     s\<lparr>popups := popups s @ [alarm_clock @ lit '' Reminder: '' @ message]\<rparr>"

definition showLoading :: "jsstring \<Rightarrow> app_state \<Rightarrow> app_state" where
  "showLoading t s = s\<lparr>loadingText := t, loadingShown := True\<rparr>"

definition hideLoading :: "app_state \<Rightarrow> app_state" where
  "hideLoading s = s\<lparr>loadingShown := False\<rparr>"

definition addMessageToChat :: "jsstring option \<Rightarrow> sender \<Rightarrow> bool \<Rightarrow> app_state \<Rightarrow> app_state" where
  "addMessageToChat message who isError s =
     s\<lparr>chat := chat s @ [\<lparr>content = message, from_sender = who, is_error = isError\<rparr>]\<rparr>"

definition removeWelcomeMessage :: "app_state \<Rightarrow> app_state" where
  "removeWelcomeMessage s = s\<lparr>welcomeShown := False\<rparr>"

definition updateStats :: "app_state \<Rightarrow> app_state" where
  "updateStats s =
     s\<lparr>messageCountShown := map_option (\<lambda>_. messageCount s) (messageCountShown s),
       voiceCountShown := map_option (\<lambda>_. voiceCount s) (voiceCountShown s)\<rparr>"

definition updateVoiceButton :: "bool \<Rightarrow> app_state \<Rightarrow> app_state" where
  "updateVoiceButton listening s = s\<lparr>voiceButtonListening := listening\<rparr>"

definition fetch :: "http_method \<Rightarrow> jsstring \<Rightarrow> jsstring option \<Rightarrow> app_state \<Rightarrow> app_state" where
  "fetch m url body s = s\<lparr>requests := requests s @ [Fetch m url body]\<rparr>"

section \<open>Reminder alerts\<close>

text \<open>The body of the trigger check: \<open>{ success, message? }\<close>.\<close>

record trigger_data =
  trigger_success :: bool
  trigger_message :: "jsstring option"

text \<open>
  \<open>checkReminderAlerts\<close> up to its first \<open>await\<close>, and from the settled call to its end.
  A rejected call, an unreadable body and a body without the signal are all silent.
\<close>

definition checkReminderAlerts_begin :: "app_state \<Rightarrow> app_state" where
  "checkReminderAlerts_begin s = fetch GET (API_BASE_URL @ ENDPOINT_TRIGGER_POPUP) None s"

fun checkReminderAlerts_settle :: "trigger_data fetch_result \<Rightarrow> app_state \<Rightarrow> app_state" where
  "checkReminderAlerts_settle NetworkError s = s"
| "checkReminderAlerts_settle (Response ok None) s = s"
| "checkReminderAlerts_settle (Response ok (Some data)) s =
     (case trigger_message data of
        None \<Rightarrow> s
      | Some message \<Rightarrow>
          if trigger_success data \<and> message \<noteq> [] then
            showToast (alarm_clock @ lit '' '' @ message) Warning
              (speakText (lit ''Reminder: '' @ message)
                (showReminderPopup message s))
          else s)"

section \<open>Connectivity\<close>

text \<open>
  The body of the health check. \<open>health_components\<close> is \<open>None\<close> when the body has no
  \<open>components\<close> member, and otherwise holds the \<open>microphone\<close> member of that object.
\<close>

record health_data =
  health_components :: "jsstring option option"
  health_microphone :: "jsstring option"

definition updateConnectionStatus :: "bool \<Rightarrow> jsstring \<Rightarrow> app_state \<Rightarrow> app_state" where
  "updateConnectionStatus connected label s =
     s\<lparr>apiConnected := connected, statusText := label,
       statusDotDisconnected := (\<not> connected)\<rparr>"

text \<open>\<open>(data.components && data.components.microphone) || data.microphone\<close>\<close>

definition micStatus :: "health_data \<Rightarrow> jsstring option" where
  "micStatus data =
     (case health_components data of
        Some (Some m) \<Rightarrow> if m \<noteq> [] then Some m else health_microphone data
      | _ \<Rightarrow> health_microphone data)"

definition checkAPIHealth_begin :: "app_state \<Rightarrow> app_state" where
  "checkAPIHealth_begin s = fetch GET (API_BASE_URL @ ENDPOINT_HEALTH) None s"

definition checkAPIHealth_catch :: "app_state \<Rightarrow> app_state" where
  "checkAPIHealth_catch s =
     showToast
       (cross_mark @ lit '' Cannot connect to server. Make sure the backend is running on port 5000.'')
       Error
       (updateConnectionStatus False (lit ''Disconnected'') s)"

fun checkAPIHealth_settle :: "health_data fetch_result \<Rightarrow> app_state \<Rightarrow> app_state" where
  "checkAPIHealth_settle NetworkError s = checkAPIHealth_catch s"
| "checkAPIHealth_settle (Response ok body) s =
     (if ok then
        (case body of
           None \<Rightarrow> checkAPIHealth_catch s
         | Some data \<Rightarrow>
             let s1 = updateConnectionStatus True (lit ''Connected'') s
             in if micStatus data = Some (lit ''not detected'') then
                  showToast
                    (warning_sign @ lit '' Microphone not detected on server. Backend voice may not work.'')
                    Warning s1
                else s1)
      else updateConnectionStatus False (lit ''Connection Error'') s)"

section \<open>Commands\<close>

text \<open>The body of the command call: \<open>{ success, response?, error? }\<close>.\<close>

record process_data =
  process_success :: bool
  process_response :: "jsstring option"
  process_error :: "jsstring option"

text \<open>
  \<open>processCommand\<close> has two \<open>await\<close>s, and so three parts: \<open>processCommand_begin\<close> runs
  until the call is issued; \<open>processCommand_fetched\<close> runs when the call settles, and ends the
  function if the call was rejected; \<open>processCommand_parsed\<close> runs when the body has been read
  (or could not be). \<open>now\<close> is what \<open>new Date().toISOString()\<close> returns then.
  \<open>processCommand_settle\<close> is the two continuations one after the other, with no other handler
  in between.
\<close>

definition processCommand_begin :: "jsstring \<Rightarrow> app_state \<Rightarrow> app_state" where
  "processCommand_begin command s =
     fetch POST (API_BASE_URL @ ENDPOINT_PROCESS) (Some command)
       (showLoading (thinking_face @ lit '' Processing...'') (s\<lparr>isProcessing := True\<rparr>))"

definition processCommand_catch :: "app_state \<Rightarrow> app_state" where
  "processCommand_catch s =
     showToast (cross_mark @ lit '' Connection error'') Error
       (addMessageToChat
          (Some (lit ''Sorry, I could not connect to the server. Please check if the backend is running.''))
          Assistant True
          (hideLoading s))"

definition processCommand_finally :: "app_state \<Rightarrow> app_state" where
  "processCommand_finally s = s\<lparr>isProcessing := False\<rparr>"

text \<open>\<open>data.error || "Processing failed"\<close>\<close>

definition error_reason :: "process_data \<Rightarrow> jsstring" where
  "error_reason data =
     (case process_error data of
        None \<Rightarrow> lit ''Processing failed''
      | Some e \<Rightarrow> if e \<noteq> [] then e else lit ''Processing failed'')"

definition processCommand_data :: "jsstring \<Rightarrow> jsstring \<Rightarrow> process_data \<Rightarrow> app_state \<Rightarrow> app_state" where
  "processCommand_data command now data s =
     (if process_success data then
        let s1 = addMessageToChat (process_response data) Assistant False s;
            s2 = s1\<lparr>conversationHistory := conversationHistory s1 @
                   [\<lparr>user = command, assistant = process_response data, timestamp = now\<rparr>]\<rparr>
        in if js_includes (toLowerCase command) (lit ''remind'')
           then s2\<lparr>refreshTimers := refreshTimers s2 @ [1000]\<rparr>
           else s2
      else
        showToast (cross_mark @ lit '' '' @ error_reason data) Error
          (addMessageToChat
             (Some (lit ''Sorry, I encountered an error processing your request.''))
             Assistant True s))"

fun processCommand_fetched :: "process_data fetch_result \<Rightarrow> app_state \<Rightarrow> app_state" where
  "processCommand_fetched NetworkError s = processCommand_finally (processCommand_catch s)"
| "processCommand_fetched (Response ok body) s = hideLoading s"

fun processCommand_parsed ::
  "jsstring \<Rightarrow> jsstring \<Rightarrow> process_data option \<Rightarrow> app_state \<Rightarrow> app_state" where
  "processCommand_parsed command now None s = processCommand_finally (processCommand_catch s)"
| "processCommand_parsed command now (Some data) s =
     processCommand_finally (processCommand_data command now data s)"

fun processCommand_settle ::
  "jsstring \<Rightarrow> jsstring \<Rightarrow> process_data fetch_result \<Rightarrow> app_state \<Rightarrow> app_state" where
  "processCommand_settle command now NetworkError s = processCommand_fetched NetworkError s"
| "processCommand_settle command now (Response ok body) s =
     processCommand_parsed command now body (processCommand_fetched (Response ok body) s)"

text \<open>\<open>handleSendMessage\<close>, which runs until \<open>processCommand\<close> has issued its call.\<close>

definition handleSendMessage :: "app_state \<Rightarrow> app_state" where
  "handleSendMessage s =
     (let message = trim (userInput s) in
      if message = [] then showToast (warning_sign @ lit '' Please enter a message'') Warning s
      else if \<not> apiConnected s then showToast (cross_mark @ lit '' Not connected to server'') Error s
      else if isProcessing s then s
      else
        let s1 = s\<lparr>userInput := []\<rparr>;
            s2 = addMessageToChat (Some message) User False s1;
            s3 = removeWelcomeMessage s2;
            s4 = s3\<lparr>messageCount := messageCount s3 + 1\<rparr>;
            s5 = updateStats s4
        in processCommand_begin message s5)"

definition sendQuickCommand :: "jsstring \<Rightarrow> app_state \<Rightarrow> app_state" where
  "sendQuickCommand command s = handleSendMessage (s\<lparr>userInput := command\<rparr>)"

section \<open>Voice input\<close>

text \<open>
  \<open>handleVoiceInput\<close>; \<open>startThrows\<close> says whether \<open>recognition.start()\<close> throws. The three
  handlers it installs follow; \<open>recognition_onresult\<close> runs until \<open>processCommand\<close> has
  issued its call, and \<open>recognition_onresult_resume\<close> runs once that command is settled.
\<close>

definition handleVoiceInput :: "bool \<Rightarrow> app_state \<Rightarrow> app_state" where
  "handleVoiceInput startThrows s =
     (if \<not> hasSpeechRecognition s then
        showToast
          (cross_mark @ lit '' Voice input not supported in this browser. Use Chrome or Edge desktop.'')
          Error s
      else if \<not> apiConnected s then showToast (cross_mark @ lit '' Not connected to server'') Error s
      else if isListening s then showToast (warning_sign @ lit '' Already listening...'') Warning s
      else
        let s1 = s\<lparr>isListening := True\<rparr>;
            s2 = updateVoiceButton True s1;
            s3 = showLoading (studio_microphone @ lit '' Listening... Speak now'') s2
        in if startThrows then
             showToast (cross_mark @ lit '' Could not start voice recognition'') Error
               (updateVoiceButton False ((hideLoading s3)\<lparr>isListening := False\<rparr>))
           else s3\<lparr>recognitionStarts := recognitionStarts s3 + 1\<rparr>)"

definition recognition_onresult :: "jsstring \<Rightarrow> app_state \<Rightarrow> app_state" where
  "recognition_onresult heard s =
     (let s1 = hideLoading s; transcript = trim heard in
      if transcript = [] then
        showToast (warning_sign @ lit '' No speech detected. Please try again.'') Warning s1
      else
        let s2 = removeWelcomeMessage s1;
            s3 = addMessageToChat (Some transcript) User False s2;
            s4 = s3\<lparr>messageCount := messageCount s3 + 1\<rparr>;
            s5 = s4\<lparr>voiceCount := voiceCount s4 + 1\<rparr>;
            s6 = updateStats s5
        in processCommand_begin transcript s6)"

definition recognition_onresult_resume :: "app_state \<Rightarrow> app_state" where
  "recognition_onresult_resume s =
     (if conversationHistory s = [] then s
      else
        case assistant (last (conversationHistory s)) of
          None \<Rightarrow> s
        | Some reply \<Rightarrow> if reply \<noteq> [] then speakText reply s else s)"

definition recognition_onerror :: "jsstring \<Rightarrow> app_state \<Rightarrow> app_state" where
  "recognition_onerror err s =
     (let s1 = hideLoading s in
      if err = lit ''no-speech'' then
        showToast (warning_sign @ lit '' No speech detected. Please try again.'') Warning s1
      else if err = lit ''audio-capture'' then
        showToast (warning_sign @ lit '' No microphone available or access denied.'') Warning s1
      else showToast (cross_mark @ lit '' Voice recognition error: '' @ err) Error s1)"

definition recognition_onend :: "app_state \<Rightarrow> app_state" where
  "recognition_onend s =
     (let s1 = updateVoiceButton False (s\<lparr>isListening := False\<rparr>)
      in if loadingShown s1 then hideLoading s1 else s1)"

section \<open>Clearing the conversation\<close>

text \<open>\<open>confirmed\<close> is the answer of the confirmation dialog.\<close>

definition handleClearConversation_begin :: "bool \<Rightarrow> app_state \<Rightarrow> app_state" where
  "handleClearConversation_begin confirmed s =
     (if \<not> confirmed then s else fetch DELETE (API_BASE_URL @ ENDPOINT_HISTORY) None s)"

fun handleClearConversation_settle :: "unit fetch_result \<Rightarrow> app_state \<Rightarrow> app_state" where
  "handleClearConversation_settle NetworkError s =
     showToast (cross_mark @ lit '' Error clearing conversation'') Error s"
| "handleClearConversation_settle (Response ok body) s =
     (if ok then
        let s1 = s\<lparr>conversationHistory := [], messageCount := 0, voiceCount := 0\<rparr>;
            s2 = updateStats s1;
            s3 = s2\<lparr>chat := [], welcomeShown := True\<rparr>
        in showToast (check_mark @ lit '' Conversation cleared'') Success s3
      else showToast (cross_mark @ lit '' Failed to clear conversation'') Error s)"

section \<open>Reminder list\<close>

text \<open>The body of the reminder listing: \<open>{ success, reminders }\<close>.\<close>

record reminders_data =
  reminders_success :: bool
  reminders_list :: "reminder list option"

text \<open>
  The template literal of \<open>updateRemindersUI\<close> for one reminder, line by line as the source
  lays it out: each line break is a line feed, followed by the indentation of the next
  line. The time and the id are interpolated as they are, the text through \<open>escapeHtml\<close>.
\<close>

definition line :: "nat \<Rightarrow> jsstring \<Rightarrow> jsstring" where
  "line indent t = 0xA # replicate indent 0x20 @ t"

definition multiplication_x :: jsstring where
  "multiplication_x = [0x2715]"

definition reminder_row :: "reminder \<Rightarrow> jsstring" where
  \<open>reminder_row r =
     line 8 (lit ''<div class="reminder-item">'') @
     line 12 (lit ''<div class="reminder-header">'') @
     line 16 (lit ''<span class="reminder-time">'' @ reminder_time r @ lit ''</span>'') @
     line 16 (lit ''<button class="reminder-delete" onclick="deleteReminder('' @
              number_text (reminder_id r) @ lit '')" title="Delete reminder">'') @
     line 20 multiplication_x @
     line 16 (lit ''</button>'') @
     line 12 (lit ''</div>'') @
     line 12 (lit ''<div class="reminder-text">'' @ escapeHtml (reminder_text r) @ lit ''</div>'') @
     line 8 (lit ''</div>'') @
     line 4 []\<close>

definition empty_state :: jsstring where
  \<open>empty_state = lit ''<p class="empty-state">No active reminders</p>''\<close>

definition updateRemindersUI :: "app_state \<Rightarrow> app_state" where
  "updateRemindersUI s =
     (case remindersList s of
        None \<Rightarrow> s
      | Some shown \<Rightarrow>
          if reminders s = [] then s\<lparr>remindersList := Some empty_state\<rparr>
          else s\<lparr>remindersList := Some (concat (map reminder_row (reminders s)))\<rparr>)"

text \<open>
  \<open>fetchReminders\<close> up to its first \<open>await\<close>, and from the settled call to its end.
  \<open>data.reminders || []\<close> is the empty list when the member is missing.
\<close>

definition fetchReminders_begin :: "app_state \<Rightarrow> app_state" where
  "fetchReminders_begin s =
     (if \<not> apiConnected s then s else fetch GET (API_BASE_URL @ ENDPOINT_REMINDERS) None s)"

fun fetchReminders_settle :: "reminders_data fetch_result \<Rightarrow> app_state \<Rightarrow> app_state" where
  "fetchReminders_settle NetworkError s = s"
| "fetchReminders_settle (Response ok None) s = s"
| "fetchReminders_settle (Response ok (Some data)) s =
     (if ok \<and> reminders_success data then
        updateRemindersUI
          (s\<lparr>reminders := (case reminders_list data of None \<Rightarrow> [] | Some rs \<Rightarrow> rs)\<rparr>)
      else s)"

text \<open>
  \<open>deleteReminder\<close> up to its \<open>await\<close>, and from the settled call to its end. On success it
  calls \<open>fetchReminders\<close>, which runs until it has issued its own call.
\<close>

definition deleteReminder_begin :: "safe_integer \<Rightarrow> app_state \<Rightarrow> app_state" where
  "deleteReminder_begin reminderId s =
     fetch DELETE (API_BASE_URL @ ENDPOINT_REMINDERS @ lit ''/'' @ number_text reminderId) None s"

fun deleteReminder_settle :: "unit fetch_result \<Rightarrow> app_state \<Rightarrow> app_state" where
  "deleteReminder_settle NetworkError s =
     showToast (cross_mark @ lit '' Error deleting reminder'') Error s"
| "deleteReminder_settle (Response ok body) s =
     (if ok then fetchReminders_begin (showToast (check_mark @ lit '' Reminder deleted'') Success s)
      else showToast (cross_mark @ lit '' Failed to delete reminder'') Error s)"

section \<open>Start\<close>

text \<open>
  The \<open>state\<close> object as the script creates it, on a page that has the elements the script
  looks up, with the welcome message in the chat and nothing done yet.
\<close>

definition initial_state :: "bool \<Rightarrow> bool \<Rightarrow> app_state" where
  "initial_state synthesis recognition =
     \<lparr>isListening = False, isProcessing = False, apiConnected = False,
      conversationHistory = [], reminders = [], messageCount = 0, voiceCount = 0,
      userInput = [], chat = [], welcomeShown = True, statusText = [],
      statusDotDisconnected = False, loadingShown = False, loadingText = [],
      voiceButtonListening = False, remindersList = Some [],
      messageCountShown = Some 0, voiceCountShown = Some 0,
      requests = [], toasts = [], popups = [], utterances = [], refreshTimers = [],
      recognitionStarts = 0, hasSpeechSynthesis = synthesis, hasSpeechRecognition = recognition\<rparr>"

section \<open>Supporting lemmas\<close>

lemmas helper_defs = showToast_def speakText_def showReminderPopup_def showLoading_def
  hideLoading_def addMessageToChat_def removeWelcomeMessage_def updateStats_def
  updateVoiceButton_def fetch_def

lemmas command_defs = handleSendMessage_def sendQuickCommand_def processCommand_begin_def
  processCommand_catch_def processCommand_finally_def processCommand_data_def error_reason_def

lemmas voice_defs = handleVoiceInput_def recognition_onresult_def

lemma trim_blank: "list_all is_js_whitespace t \<Longrightarrow> trim t = []"
proof -
  assume "list_all is_js_whitespace t"
  then have blank: "dropWhile is_js_whitespace t = []"
    by (induction t) simp_all
  show ?thesis unfolding trim_def blank by simp
qed

lemma trim_blank_iff: "trim t = [] \<longleftrightarrow> list_all is_js_whitespace t"
proof
  assume "list_all is_js_whitespace t"
  then show "trim t = []" by (rule trim_blank)
next
  assume "trim t = []"
  then have "dropWhile is_js_whitespace (rev (dropWhile is_js_whitespace t)) = []"
    by (simp add: trim_def)
  then have rest: "\<forall>c \<in> set (dropWhile is_js_whitespace t). is_js_whitespace c"
    by (simp add: dropWhile_eq_Nil_conv)
  have "dropWhile is_js_whitespace t = []"
  proof (cases "dropWhile is_js_whitespace t")
    case Nil
    then show ?thesis .
  next
    case (Cons c cs)
    then have "\<not> is_js_whitespace c"
      by (metis hd_dropWhile list.sel(1) list.distinct(1))
    with rest Cons show ?thesis by simp
  qed
  then show "list_all is_js_whitespace t"
    by (simp add: dropWhile_eq_Nil_conv list_all_iff)
qed

lemma trim_starts_visible: "\<not> is_js_whitespace c \<Longrightarrow> trim (c # cs) \<noteq> []"
  by (simp add: trim_def dropWhile_eq_Nil_conv dropWhile_append)

lemma spoken_alert_visible: "trim (lit ''Reminder: '' @ m) \<noteq> []"
  by (simp add: lit_def trim_starts_visible is_js_whitespace_def)

section \<open>Reminder alerts: when the three effects happen\<close>

text \<open>
  C10. The alert needs the success flag: a trigger-check response that carries a
  non-empty message but whose \<open>success\<close> is false causes no popup, no utterance and no
  toast.
\<close>

theorem alert_requires_success:
  assumes "trigger_message d = Some m" and "m \<noteq> []" and "\<not> trigger_success d"
  shows "popups (checkReminderAlerts_settle (Response ok (Some d)) s) = popups s
       \<and> utterances (checkReminderAlerts_settle (Response ok (Some d)) s) = utterances s
       \<and> toasts (checkReminderAlerts_settle (Response ok (Some d)) s) = toasts s"
  using assms by simp

theorem alert_requires_success_witness:
  "popups (checkReminderAlerts_settle
      (Response True (Some \<lparr>trigger_success = False, trigger_message = Some (lit ''drink water'')\<rparr>))
      (initial_state True True)) = []
 \<and> utterances (checkReminderAlerts_settle
      (Response True (Some \<lparr>trigger_success = False, trigger_message = Some (lit ''drink water'')\<rparr>))
      (initial_state True True)) = []
 \<and> toasts (checkReminderAlerts_settle
      (Response True (Some \<lparr>trigger_success = False, trigger_message = Some (lit ''drink water'')\<rparr>))
      (initial_state True True)) = []"
  using alert_requires_success
    [of "\<lparr>trigger_success = False, trigger_message = Some (lit ''drink water'')\<rparr>"
        "lit ''drink water''" True "initial_state True True"]
  by (simp add: initial_state_def lit_def)

text \<open>
  C1, as stated, fails twice. A response with the message \<open>drink water\<close> and \<open>success\<close>
  false causes none of the three effects; and on a platform without speech synthesis a
  response with \<open>success\<close> true causes the popup and the toast but no utterance.
\<close>

theorem unconditional_alert_counterexample:
  "popups (checkReminderAlerts_settle
      (Response True (Some \<lparr>trigger_success = False, trigger_message = Some (lit ''drink water'')\<rparr>))
      (initial_state True True)) = []
 \<and> utterances (checkReminderAlerts_settle
      (Response True (Some \<lparr>trigger_success = False, trigger_message = Some (lit ''drink water'')\<rparr>))
      (initial_state True True)) = []
 \<and> toasts (checkReminderAlerts_settle
      (Response True (Some \<lparr>trigger_success = False, trigger_message = Some (lit ''drink water'')\<rparr>))
      (initial_state True True)) = []
 \<and> length (popups (checkReminderAlerts_settle
      (Response True (Some \<lparr>trigger_success = True, trigger_message = Some (lit ''drink water'')\<rparr>))
      (initial_state False True))) = 1
 \<and> utterances (checkReminderAlerts_settle
      (Response True (Some \<lparr>trigger_success = True, trigger_message = Some (lit ''drink water'')\<rparr>))
      (initial_state False True)) = []"
  by (simp add: initial_state_def lit_def helper_defs)

text \<open>
  C1, amended. A response whose \<open>success\<close> is true and whose message is not empty causes
  exactly one popup and exactly one warning toast, and, where the platform has speech
  synthesis, exactly one utterance, of \<open>Reminder:\<close> followed by the message. Every other
  outcome of the poll (success false, no message, an empty message, an unreadable body,
  a failed call) causes none of the three.
\<close>

theorem reminder_alert_effects:
  "(trigger_success d \<and> trigger_message d = Some m \<and> m \<noteq> [] \<longrightarrow>
      popups (checkReminderAlerts_settle (Response ok (Some d)) s)
        = popups s @ [alarm_clock @ lit '' Reminder: '' @ m]
    \<and> toasts (checkReminderAlerts_settle (Response ok (Some d)) s)
        = toasts s @ [(alarm_clock @ lit '' '' @ m, Warning)]
    \<and> utterances (checkReminderAlerts_settle (Response ok (Some d)) s)
        = (if hasSpeechSynthesis s then utterances s @ [lit ''Reminder: '' @ m] else utterances s))
 \<and> (\<not> trigger_success d \<or> trigger_message d = None \<or> trigger_message d = Some [] \<longrightarrow>
      popups (checkReminderAlerts_settle (Response ok (Some d)) s) = popups s
    \<and> toasts (checkReminderAlerts_settle (Response ok (Some d)) s) = toasts s
    \<and> utterances (checkReminderAlerts_settle (Response ok (Some d)) s) = utterances s)
 \<and> checkReminderAlerts_settle (Response ok None) s = s
 \<and> checkReminderAlerts_settle NetworkError s = s"
  by (auto simp: helper_defs spoken_alert_visible split: option.splits)

theorem reminder_alert_effects_witness:
  "popups (checkReminderAlerts_settle
      (Response True (Some \<lparr>trigger_success = True, trigger_message = Some (lit ''drink water'')\<rparr>))
      (initial_state True True)) = [alarm_clock @ lit '' Reminder: drink water'']
 \<and> toasts (checkReminderAlerts_settle
      (Response True (Some \<lparr>trigger_success = True, trigger_message = Some (lit ''drink water'')\<rparr>))
      (initial_state True True)) = [(alarm_clock @ lit '' drink water'', Warning)]
 \<and> utterances (checkReminderAlerts_settle
      (Response True (Some \<lparr>trigger_success = True, trigger_message = Some (lit ''drink water'')\<rparr>))
      (initial_state True True)) = [lit ''Reminder: drink water'']
 \<and> popups (checkReminderAlerts_settle
      (Response True (Some \<lparr>trigger_success = True, trigger_message = None\<rparr>))
      (initial_state True True)) = []
 \<and> toasts (checkReminderAlerts_settle
      (Response True (Some \<lparr>trigger_success = True, trigger_message = None\<rparr>))
      (initial_state True True)) = []
 \<and> utterances (checkReminderAlerts_settle
      (Response True (Some \<lparr>trigger_success = True, trigger_message = None\<rparr>))
      (initial_state True True)) = []"
  using reminder_alert_effects
    [of "\<lparr>trigger_success = True, trigger_message = Some (lit ''drink water'')\<rparr>"
        "lit ''drink water''" True "initial_state True True"]
    reminder_alert_effects
    [of "\<lparr>trigger_success = True, trigger_message = None\<rparr>"
        "[]" True "initial_state True True"]
  by (simp add: initial_state_def lit_def)

section \<open>The command dispatcher\<close>

text \<open>
  C5. On every exit path the busy indicator is cleared and the processing flag released.
  When the call settles, \<open>processCommand\<close> hides the busy indicator, whether the call was
  rejected or answered; when it ends (after a rejected call, an unreadable body, a body
  that reports success or one that reports failure) it has released the processing flag,
  whatever the state it runs in; and a run of its continuations ends with the indicator
  hidden and the flag released.
\<close>

theorem processCommand_always_idle:
  "\<not> loadingShown (processCommand_fetched r s)
 \<and> \<not> isProcessing (processCommand_fetched NetworkError s)
 \<and> \<not> isProcessing (processCommand_parsed command now body s)
 \<and> \<not> loadingShown (processCommand_parsed command now None s)
 \<and> loadingShown (processCommand_parsed command now (Some data) s) = loadingShown s
 \<and> \<not> loadingShown (processCommand_settle command now r s)
 \<and> \<not> isProcessing (processCommand_settle command now r s)"
proof -
  have fetched: "\<not> loadingShown (processCommand_fetched r s)"
    by (cases r) (simp_all add: processCommand_finally_def processCommand_catch_def helper_defs)
  have parsed: "\<not> isProcessing (processCommand_parsed command now b t)" for b t
    by (cases b) (simp_all add: processCommand_finally_def)
  have kept: "loadingShown (processCommand_parsed command now (Some data) t) = loadingShown t" for t
    by (simp add: processCommand_finally_def processCommand_data_def helper_defs Let_def)
  have caught: "\<not> loadingShown (processCommand_parsed command now None t)" for t
    by (simp add: processCommand_finally_def processCommand_catch_def helper_defs)
  have hidden: "\<not> loadingShown (processCommand_parsed command now b (hideLoading t))" for b t
    by (cases b)
       (simp_all add: processCommand_finally_def processCommand_catch_def processCommand_data_def
          helper_defs Let_def)
  have settled: "\<not> loadingShown (processCommand_settle command now r s)
               \<and> \<not> isProcessing (processCommand_settle command now r s)"
  proof (cases r)
    case NetworkError
    then show ?thesis
      by (simp add: processCommand_finally_def processCommand_catch_def helper_defs)
  next
    case (Response ok b)
    then show ?thesis by (simp add: parsed hidden)
  qed
  have rejected: "\<not> isProcessing (processCommand_fetched NetworkError s)"
    by (simp add: processCommand_finally_def)
  from fetched rejected parsed [of body s] caught [of s] kept [of s] settled
  show ?thesis by (simp only: simp_thms)
qed

text \<open>
  Typed and quick-command submissions are dropped while the processing flag is set; the
  handler of a recognised transcript does not look at the flag.
\<close>

lemma typed_submission_no_call:
  "isProcessing s \<Longrightarrow> requests (handleSendMessage s) = requests s"
  by (simp add: handleSendMessage_def Let_def helper_defs)

lemma quick_submission_no_call:
  "isProcessing s \<Longrightarrow> requests (sendQuickCommand c s) = requests s"
  by (simp add: sendQuickCommand_def handleSendMessage_def Let_def helper_defs)

lemma voice_submission_calls:
  "trim heard \<noteq> [] \<Longrightarrow>
   requests (recognition_onresult heard s)
     = requests s @ [Fetch POST (API_BASE_URL @ ENDPOINT_PROCESS) (Some (trim heard))]"
  by (simp add: recognition_onresult_def processCommand_begin_def Let_def helper_defs)

text \<open>
  C2. The code at the failing input. The client is connected and a capture session is
  started; while it listens, the text \<open>what time is it\<close> is submitted, which sets the
  processing flag and issues the command call; before that call settles the recogniser
  delivers the transcript \<open>hello\<close>, and a second command call is issued.
\<close>

theorem voice_command_while_processing:
  "isListening (handleVoiceInput False ((initial_state True True)\<lparr>apiConnected := True\<rparr>))
 \<and> isProcessing (handleSendMessage
      ((handleVoiceInput False ((initial_state True True)\<lparr>apiConnected := True\<rparr>))
         \<lparr>userInput := lit ''what time is it''\<rparr>))
 \<and> requests (handleSendMessage
      ((handleVoiceInput False ((initial_state True True)\<lparr>apiConnected := True\<rparr>))
         \<lparr>userInput := lit ''what time is it''\<rparr>))
     = [Fetch POST (API_BASE_URL @ ENDPOINT_PROCESS) (Some (lit ''what time is it''))]
 \<and> requests (recognition_onresult (lit ''hello'')
      (handleSendMessage
        ((handleVoiceInput False ((initial_state True True)\<lparr>apiConnected := True\<rparr>))
           \<lparr>userInput := lit ''what time is it''\<rparr>)))
     = [Fetch POST (API_BASE_URL @ ENDPOINT_PROCESS) (Some (lit ''what time is it'')),
        Fetch POST (API_BASE_URL @ ENDPOINT_PROCESS) (Some (lit ''hello''))]"
  by (simp add: initial_state_def lit_def trim_def is_js_whitespace_def command_defs voice_defs
        helper_defs Let_def)

text \<open>
  C3, as stated, fails. In the initial state, which is disconnected, deleting reminder 7
  issues its call, and so does clearing the conversation once confirmed, neither with a
  notification; and submitting the empty input is answered with a warning, not an error.
\<close>

theorem disconnected_actions_counterexample:
  "\<not> apiConnected (initial_state True True)
 \<and> requests (deleteReminder_begin 7 (initial_state True True))
     = [Fetch DELETE (API_BASE_URL @ ENDPOINT_REMINDERS @ lit ''/7'') None]
 \<and> toasts (deleteReminder_begin 7 (initial_state True True)) = []
 \<and> requests (handleClearConversation_begin True (initial_state True True))
     = [Fetch DELETE (API_BASE_URL @ ENDPOINT_HISTORY) None]
 \<and> toasts (handleClearConversation_begin True (initial_state True True)) = []
 \<and> map snd (toasts (handleSendMessage (initial_state True True))) = [Warning]"
  by (simp add: initial_state_def deleteReminder_begin_def handleClearConversation_begin_def
        handleSendMessage_def trim_def helper_defs number_text_def decimal.simps lit_def)

text \<open>
  C3, amended. In every disconnected state, submitting a command whose text is not blank
  and starting voice capture each stop with an error notification and issue no network
  call (and no capture session is started); a blank submission stops with the warning
  notification instead, also without a call.
\<close>

theorem disconnected_short_circuit:
  assumes "\<not> apiConnected s"
  shows "(trim (userInput s) \<noteq> [] \<longrightarrow>
            requests (handleSendMessage s) = requests s
          \<and> toasts (handleSendMessage s)
              = toasts s @ [(cross_mark @ lit '' Not connected to server'', Error)])
       \<and> (trim (userInput s) = [] \<longrightarrow>
            requests (handleSendMessage s) = requests s
          \<and> toasts (handleSendMessage s)
              = toasts s @ [(warning_sign @ lit '' Please enter a message'', Warning)])
       \<and> requests (handleVoiceInput startThrows s) = requests s
       \<and> recognitionStarts (handleVoiceInput startThrows s) = recognitionStarts s
       \<and> isListening (handleVoiceInput startThrows s) = isListening s
       \<and> toasts (handleVoiceInput startThrows s)
           = toasts s @
             [(if hasSpeechRecognition s then cross_mark @ lit '' Not connected to server''
               else cross_mark @
                 lit '' Voice input not supported in this browser. Use Chrome or Edge desktop.'',
               Error)]"
  using assms by (simp add: handleSendMessage_def handleVoiceInput_def Let_def helper_defs)

theorem disconnected_short_circuit_witness:
  "\<not> apiConnected ((initial_state True True)\<lparr>userInput := lit ''hello''\<rparr>)
 \<and> requests (handleSendMessage ((initial_state True True)\<lparr>userInput := lit ''hello''\<rparr>)) = []
 \<and> toasts (handleSendMessage ((initial_state True True)\<lparr>userInput := lit ''hello''\<rparr>))
     = [(cross_mark @ lit '' Not connected to server'', Error)]
 \<and> requests (handleVoiceInput False ((initial_state True True)\<lparr>userInput := lit ''hello''\<rparr>)) = []
 \<and> toasts (handleVoiceInput False ((initial_state True True)\<lparr>userInput := lit ''hello''\<rparr>))
     = [(cross_mark @ lit '' Not connected to server'', Error)]
 \<and> toasts (handleSendMessage (initial_state True True))
     = [(warning_sign @ lit '' Please enter a message'', Warning)]"
proof -
  have off: "\<not> apiConnected ((initial_state True True)\<lparr>userInput := lit ''hello''\<rparr>)"
    by (simp add: initial_state_def)
  have off0: "\<not> apiConnected (initial_state True True)"
    by (simp add: initial_state_def)
  have typed: "trim (userInput ((initial_state True True)\<lparr>userInput := lit ''hello''\<rparr>)) \<noteq> []"
    by (simp add: lit_def trim_def is_js_whitespace_def)
  have blank: "trim (userInput (initial_state True True)) = []"
    by (simp add: initial_state_def trim_def)
  show ?thesis
    using off typed blank
      disconnected_short_circuit [OF off, of False]
      disconnected_short_circuit [OF off0, of False]
    by (simp add: initial_state_def)
qed

text \<open>
  C4, as stated, fails: the counter is not incremented as part of handling the success
  response. After \<open>what time is it\<close> is accepted the counter is already 1, before any
  response; handling a success response leaves it at 1; and it is 1 as well when the call
  fails.
\<close>

theorem counter_on_success_counterexample:
  "messageCount (handleSendMessage
      ((initial_state True True)\<lparr>apiConnected := True, userInput := lit ''what time is it''\<rparr>)) = 1
 \<and> messageCount (processCommand_settle (lit ''what time is it'') (lit ''2024-01-01T00:00:00.000Z'')
      (Response True (Some \<lparr>process_success = True, process_response = Some (lit ''noon''),
                               process_error = None\<rparr>))
      (handleSendMessage
        ((initial_state True True)\<lparr>apiConnected := True, userInput := lit ''what time is it''\<rparr>))) = 1
 \<and> messageCount (processCommand_settle (lit ''what time is it'') (lit ''2024-01-01T00:00:00.000Z'')
      NetworkError
      (handleSendMessage
        ((initial_state True True)\<lparr>apiConnected := True, userInput := lit ''what time is it''\<rparr>))) = 1"
  by (simp add: initial_state_def lit_def trim_def is_js_whitespace_def command_defs
        helper_defs Let_def)

text \<open>
  C4, amended. An accepted submission (text not blank, connected, no command in flight)
  increments the message counter by one at acceptance, before the call is issued, and
  leaves the voice counter and the conversation log as they were. The handling of the
  response never changes the counter: a success response appends exactly one turn, with
  the submitted text, the assistant text and the timestamp; an application-level failure,
  an unreadable body and a transport failure append none.
\<close>

theorem accepted_submission_turn_and_counter:
  assumes "trim (userInput s) = command" and "command \<noteq> []"
    and "apiConnected s" and "\<not> isProcessing s"
  shows "messageCount (handleSendMessage s) = messageCount s + 1
       \<and> voiceCount (handleSendMessage s) = voiceCount s
       \<and> conversationHistory (handleSendMessage s) = conversationHistory s
       \<and> requests (handleSendMessage s)
           = requests s @ [Fetch POST (API_BASE_URL @ ENDPOINT_PROCESS) (Some command)]
       \<and> messageCount (processCommand_fetched r s') = messageCount s'
       \<and> messageCount (processCommand_parsed command now body s') = messageCount s'
       \<and> conversationHistory (processCommand_fetched r s') = conversationHistory s'
       \<and> conversationHistory (processCommand_parsed command now body s')
           = (case body of
                Some data \<Rightarrow>
                  if process_success data
                  then conversationHistory s' @
                         [\<lparr>user = command, assistant = process_response data, timestamp = now\<rparr>]
                  else conversationHistory s'
              | None \<Rightarrow> conversationHistory s')
       \<and> messageCount (processCommand_settle command now r (handleSendMessage s))
           = messageCount s + 1
       \<and> conversationHistory (processCommand_settle command now r (handleSendMessage s))
           = (case r of
                Response ok (Some data) \<Rightarrow>
                  if process_success data
                  then conversationHistory s @
                         [\<lparr>user = command, assistant = process_response data, timestamp = now\<rparr>]
                  else conversationHistory s
              | _ \<Rightarrow> conversationHistory s)"
proof -
  have fetched_count: "messageCount (processCommand_fetched q t) = messageCount t" for q t
    by (cases q) (simp_all add: command_defs helper_defs)
  have fetched_history: "conversationHistory (processCommand_fetched q t) = conversationHistory t"
    for q t
    by (cases q) (simp_all add: command_defs helper_defs)
  have parsed_count: "messageCount (processCommand_parsed command now b t) = messageCount t"
    for b t
    by (cases b) (simp_all add: command_defs helper_defs Let_def)
  have parsed_history: "conversationHistory (processCommand_parsed command now b t)
           = (case b of
                Some data \<Rightarrow>
                  if process_success data
                  then conversationHistory t @
                         [\<lparr>user = command, assistant = process_response data, timestamp = now\<rparr>]
                  else conversationHistory t
              | None \<Rightarrow> conversationHistory t)" for b t
    by (cases b) (simp_all add: command_defs helper_defs Let_def)
  have settle_count: "messageCount (processCommand_settle command now r t) = messageCount t" for t
    by (cases r) (simp_all add: parsed_count fetched_count del: processCommand_fetched.simps)
  have settle_history: "conversationHistory (processCommand_settle command now r t)
           = (case r of
                Response ok (Some data) \<Rightarrow>
                  if process_success data
                  then conversationHistory t @
                         [\<lparr>user = command, assistant = process_response data, timestamp = now\<rparr>]
                  else conversationHistory t
              | _ \<Rightarrow> conversationHistory t)" for t
  proof (cases r)
    case NetworkError
    then show ?thesis by (simp add: fetched_history del: processCommand_fetched.simps)
  next
    case (Response ok b)
    then show ?thesis
      by (cases b) (simp_all add: command_defs helper_defs Let_def)
  qed
  have accept: "messageCount (handleSendMessage s) = messageCount s + 1"
    "voiceCount (handleSendMessage s) = voiceCount s"
    "conversationHistory (handleSendMessage s) = conversationHistory s"
    "requests (handleSendMessage s)
           = requests s @ [Fetch POST (API_BASE_URL @ ENDPOINT_PROCESS) (Some command)]"
    using assms by (simp_all add: handleSendMessage_def processCommand_begin_def helper_defs Let_def)
  show ?thesis
    by (simp only: fetched_count fetched_history parsed_count parsed_history
          settle_count settle_history accept simp_thms)
qed

theorem accepted_submission_turn_and_counter_witness:
  "messageCount (handleSendMessage
      ((initial_state True True)\<lparr>apiConnected := True, userInput := lit ''what time is it''\<rparr>)) = 1
 \<and> voiceCount (handleSendMessage
      ((initial_state True True)\<lparr>apiConnected := True, userInput := lit ''what time is it''\<rparr>)) = 0
 \<and> conversationHistory (processCommand_settle (lit ''what time is it'')
      (lit ''2024-01-01T00:00:00.000Z'')
      (Response True (Some \<lparr>process_success = True, process_response = Some (lit ''noon''),
                               process_error = None\<rparr>))
      (handleSendMessage
        ((initial_state True True)\<lparr>apiConnected := True, userInput := lit ''what time is it''\<rparr>)))
     = [\<lparr>user = lit ''what time is it'', assistant = Some (lit ''noon''),
         timestamp = lit ''2024-01-01T00:00:00.000Z''\<rparr>]
 \<and> messageCount (processCommand_settle (lit ''what time is it'')
      (lit ''2024-01-01T00:00:00.000Z'')
      (Response True (Some \<lparr>process_success = True, process_response = Some (lit ''noon''),
                               process_error = None\<rparr>))
      (handleSendMessage
        ((initial_state True True)\<lparr>apiConnected := True, userInput := lit ''what time is it''\<rparr>))) = 1"
proof -
  have typed: "trim (userInput
      ((initial_state True True)\<lparr>apiConnected := True, userInput := lit ''what time is it''\<rparr>))
      = lit ''what time is it''"
    by (simp add: lit_def trim_def is_js_whitespace_def)
  have filled: "lit ''what time is it'' \<noteq> []"
    by (simp add: lit_def)
  have on: "apiConnected
      ((initial_state True True)\<lparr>apiConnected := True, userInput := lit ''what time is it''\<rparr>)"
    by simp
  have idle: "\<not> isProcessing
      ((initial_state True True)\<lparr>apiConnected := True, userInput := lit ''what time is it''\<rparr>)"
    by (simp add: initial_state_def)
  show ?thesis
    using accepted_submission_turn_and_counter [OF typed filled on idle,
        of "Response True (Some \<lparr>process_success = True, process_response = Some (lit ''noon''),
                               process_error = None\<rparr>)"
           "initial_state True True"
           "lit ''2024-01-01T00:00:00.000Z''"
           "Some \<lparr>process_success = True, process_response = Some (lit ''noon''),
                               process_error = None\<rparr>"]
    by (simp add: initial_state_def)
qed

section \<open>Connectivity: what a health check does\<close>

text \<open>
  C6, as stated, fails: a health check answered with a non-success status sets the state
  to disconnected but emits no notification.
\<close>

theorem health_status_counterexample:
  "\<not> apiConnected (checkAPIHealth_settle (Response False None)
       ((initial_state True True)\<lparr>apiConnected := True\<rparr>))
 \<and> toasts (checkAPIHealth_settle (Response False None)
       ((initial_state True True)\<lparr>apiConnected := True\<rparr>)) = []"
  by (simp add: initial_state_def updateConnectionStatus_def)

text \<open>
  C6, amended. A health check that fails by a network error, or whose body cannot be
  read, sets the state to disconnected and emits an error notification. One answered with
  a non-success status sets the state to disconnected and the status label to
  \<open>Connection Error\<close>, and emits no notification. One answered with a success status and
  a readable body sets the state to connected.
\<close>

theorem health_check_outcomes:
  "\<not> apiConnected (checkAPIHealth_settle NetworkError s)
 \<and> toasts (checkAPIHealth_settle NetworkError s)
     = toasts s @ [(cross_mark @
         lit '' Cannot connect to server. Make sure the backend is running on port 5000.'', Error)]
 \<and> \<not> apiConnected (checkAPIHealth_settle (Response True None) s)
 \<and> toasts (checkAPIHealth_settle (Response True None) s)
     = toasts s @ [(cross_mark @
         lit '' Cannot connect to server. Make sure the backend is running on port 5000.'', Error)]
 \<and> \<not> apiConnected (checkAPIHealth_settle (Response False body) s)
 \<and> statusText (checkAPIHealth_settle (Response False body) s) = lit ''Connection Error''
 \<and> toasts (checkAPIHealth_settle (Response False body) s) = toasts s
 \<and> apiConnected (checkAPIHealth_settle (Response True (Some data)) s)"
  by (simp add: checkAPIHealth_catch_def updateConnectionStatus_def helper_defs Let_def)

section \<open>The reminder list\<close>

text \<open>
  C7. Deleting a reminder never touches the cached list or the rendered list: not when the
  call is issued, and not when it settles, however it settles. A delete that fails by a
  transport error or a non-success status shows an error notification.
\<close>

theorem failed_delete_keeps_reminders:
  "reminders (deleteReminder_begin reminderId s) = reminders s
 \<and> remindersList (deleteReminder_begin reminderId s) = remindersList s
 \<and> reminders (deleteReminder_settle r s) = reminders s
 \<and> remindersList (deleteReminder_settle r s) = remindersList s
 \<and> toasts (deleteReminder_settle NetworkError s)
     = toasts s @ [(cross_mark @ lit '' Error deleting reminder'', Error)]
 \<and> toasts (deleteReminder_settle (Response False body) s)
     = toasts s @ [(cross_mark @ lit '' Failed to delete reminder'', Error)]"
proof -
  have "reminders (deleteReminder_settle r s) = reminders s
      \<and> remindersList (deleteReminder_settle r s) = remindersList s"
    by (cases r) (simp_all add: fetchReminders_begin_def helper_defs)
  then show ?thesis
    by (simp add: deleteReminder_begin_def helper_defs)
qed

text \<open>Writing out an indentation of a given width.\<close>

lemma indentation_unfold: "replicate (numeral w) (c::nat) = c # replicate (numeral w - 1) c"
  by (simp add: numeral_eq_Suc)

text \<open>
  The list for ordinary reminders: the placeholder for the empty cache, and one row,
  written out line by line, for a cache of one reminder with id 1, due at \<open>5:00 PM\<close>,
  with the text \<open>drink water\<close>.
\<close>

lemma empty_cache_placeholder:
  \<open>remindersList (updateRemindersUI (initial_state True True))
     = Some (lit ''<p class="empty-state">No active reminders</p>'')\<close>
  by (simp add: initial_state_def updateRemindersUI_def empty_state_def)

lemma one_reminder_one_row:
  \<open>remindersList (updateRemindersUI ((initial_state True True)
      \<lparr>reminders := [\<lparr>reminder_id = 1, reminder_time = lit ''5:00 PM'',
                      reminder_text = lit ''drink water''\<rparr>]\<rparr>))
     = Some
        (lit ''\<newline>        <div class="reminder-item">'' @
         lit ''\<newline>            <div class="reminder-header">'' @
         lit ''\<newline>                <span class="reminder-time">5:00 PM</span>'' @
         lit ''\<newline>                <button class="reminder-delete" onclick="deleteReminder(1)" title="Delete reminder">'' @
         lit ''\<newline>                    '' @
         [0x2715] @
         lit ''\<newline>                </button>'' @
         lit ''\<newline>            </div>'' @
         lit ''\<newline>            <div class="reminder-text">drink water</div>'' @
         lit ''\<newline>        </div>'' @
         lit ''\<newline>    '')\<close>
  by (simp add: initial_state_def updateRemindersUI_def reminder_row_def line_def
        multiplication_x_def number_text_def decimal.simps lit_def indentation_unfold)

text \<open>
  C8. The code at the failing input. The client is connected and the reminder listing
  answers with one reminder, whose \<open>time\<close> holds the markup that closes the time span and
  the row and opens another row. \<open>updateRemindersUI\<close> interpolates the time as it is, while
  it passes the text of the same reminder through \<open>escapeHtml\<close>. The cache then holds one
  reminder, and what is assigned to the list is the two rows written out below: character
  for character what is assigned for the cache of two reminders (id 7 at \<open>5:00 PM\<close> with
  the text \<open>walk\<close>, and id 1 at \<open>6:00 PM\<close>).
\<close>

theorem markup_in_time_renders_two_rows:
  \<open>length (reminders
     (fetchReminders_settle
       (Response True (Some \<lparr>reminders_success = True, reminders_list = Some
         [\<lparr>reminder_id = 1,
           reminder_time =
             lit ''5:00 PM</span>'' @
             lit ''\<newline>                <button class="reminder-delete" onclick="deleteReminder(7)" title="Delete reminder">'' @
             lit ''\<newline>                    '' @
             [0x2715] @
             lit ''\<newline>                </button>'' @
             lit ''\<newline>            </div>'' @
             lit ''\<newline>            <div class="reminder-text">walk</div>'' @
             lit ''\<newline>        </div>'' @
             lit ''\<newline>    '' @
             lit ''\<newline>        <div class="reminder-item">'' @
             lit ''\<newline>            <div class="reminder-header">'' @
             lit ''\<newline>                <span class="reminder-time">6:00 PM'',
           reminder_text = lit ''tea & <cake>''\<rparr>]\<rparr>))
       ((initial_state True True)\<lparr>apiConnected := True\<rparr>))) = 1
 \<and> remindersList
     (fetchReminders_settle
       (Response True (Some \<lparr>reminders_success = True, reminders_list = Some
         [\<lparr>reminder_id = 1,
           reminder_time =
             lit ''5:00 PM</span>'' @
             lit ''\<newline>                <button class="reminder-delete" onclick="deleteReminder(7)" title="Delete reminder">'' @
             lit ''\<newline>                    '' @
             [0x2715] @
             lit ''\<newline>                </button>'' @
             lit ''\<newline>            </div>'' @
             lit ''\<newline>            <div class="reminder-text">walk</div>'' @
             lit ''\<newline>        </div>'' @
             lit ''\<newline>    '' @
             lit ''\<newline>        <div class="reminder-item">'' @
             lit ''\<newline>            <div class="reminder-header">'' @
             lit ''\<newline>                <span class="reminder-time">6:00 PM'',
           reminder_text = lit ''tea & <cake>''\<rparr>]\<rparr>))
       ((initial_state True True)\<lparr>apiConnected := True\<rparr>))
   = Some
      (lit ''\<newline>        <div class="reminder-item">'' @
       lit ''\<newline>            <div class="reminder-header">'' @
       lit ''\<newline>                <span class="reminder-time">5:00 PM</span>'' @
       lit ''\<newline>                <button class="reminder-delete" onclick="deleteReminder(7)" title="Delete reminder">'' @
       lit ''\<newline>                    '' @
       [0x2715] @
       lit ''\<newline>                </button>'' @
       lit ''\<newline>            </div>'' @
       lit ''\<newline>            <div class="reminder-text">walk</div>'' @
       lit ''\<newline>        </div>'' @
       lit ''\<newline>    '' @
       lit ''\<newline>        <div class="reminder-item">'' @
       lit ''\<newline>            <div class="reminder-header">'' @
       lit ''\<newline>                <span class="reminder-time">6:00 PM</span>'' @
       lit ''\<newline>                <button class="reminder-delete" onclick="deleteReminder(1)" title="Delete reminder">'' @
       lit ''\<newline>                    '' @
       [0x2715] @
       lit ''\<newline>                </button>'' @
       lit ''\<newline>            </div>'' @
       lit ''\<newline>            <div class="reminder-text">tea &amp; &lt;cake&gt;</div>'' @
       lit ''\<newline>        </div>'' @
       lit ''\<newline>    '')
 \<and> length (reminders
     (fetchReminders_settle
       (Response True (Some \<lparr>reminders_success = True, reminders_list = Some
         [\<lparr>reminder_id = 7, reminder_time = lit ''5:00 PM'', reminder_text = lit ''walk''\<rparr>,
          \<lparr>reminder_id = 1, reminder_time = lit ''6:00 PM'',
            reminder_text = lit ''tea & <cake>''\<rparr>]\<rparr>))
       ((initial_state True True)\<lparr>apiConnected := True\<rparr>))) = 2
 \<and> remindersList
     (fetchReminders_settle
       (Response True (Some \<lparr>reminders_success = True, reminders_list = Some
         [\<lparr>reminder_id = 7, reminder_time = lit ''5:00 PM'', reminder_text = lit ''walk''\<rparr>,
          \<lparr>reminder_id = 1, reminder_time = lit ''6:00 PM'',
            reminder_text = lit ''tea & <cake>''\<rparr>]\<rparr>))
       ((initial_state True True)\<lparr>apiConnected := True\<rparr>))
   = remindersList
     (fetchReminders_settle
       (Response True (Some \<lparr>reminders_success = True, reminders_list = Some
         [\<lparr>reminder_id = 1,
           reminder_time =
             lit ''5:00 PM</span>'' @
             lit ''\<newline>                <button class="reminder-delete" onclick="deleteReminder(7)" title="Delete reminder">'' @
             lit ''\<newline>                    '' @
             [0x2715] @
             lit ''\<newline>                </button>'' @
             lit ''\<newline>            </div>'' @
             lit ''\<newline>            <div class="reminder-text">walk</div>'' @
             lit ''\<newline>        </div>'' @
             lit ''\<newline>    '' @
             lit ''\<newline>        <div class="reminder-item">'' @
             lit ''\<newline>            <div class="reminder-header">'' @
             lit ''\<newline>                <span class="reminder-time">6:00 PM'',
           reminder_text = lit ''tea & <cake>''\<rparr>]\<rparr>))
       ((initial_state True True)\<lparr>apiConnected := True\<rparr>))\<close>
  by (simp add: initial_state_def updateRemindersUI_def reminder_row_def line_def
        multiplication_x_def number_text_def decimal.simps lit_def indentation_unfold)

section \<open>Blank commands\<close>

text \<open>
  C9. When the command text is empty or consists of white space only, submitting it, from
  the input field or as a quick command, issues no call and shows the warning
  notification.
\<close>

theorem blank_command_rejected:
  assumes "list_all is_js_whitespace (userInput s)"
  shows "requests (handleSendMessage s) = requests s
       \<and> toasts (handleSendMessage s)
           = toasts s @ [(warning_sign @ lit '' Please enter a message'', Warning)]
       \<and> requests (sendQuickCommand (userInput s) s) = requests s
       \<and> toasts (sendQuickCommand (userInput s) s)
           = toasts s @ [(warning_sign @ lit '' Please enter a message'', Warning)]"
  using trim_blank [OF assms]
  by (simp add: sendQuickCommand_def handleSendMessage_def helper_defs)

theorem blank_command_rejected_witness:
  "list_all is_js_whitespace (lit ''   '')
 \<and> requests (handleSendMessage
      ((initial_state True True)\<lparr>apiConnected := True, userInput := lit ''   ''\<rparr>)) = []
 \<and> toasts (handleSendMessage
      ((initial_state True True)\<lparr>apiConnected := True, userInput := lit ''   ''\<rparr>))
     = [(warning_sign @ lit '' Please enter a message'', Warning)]"
proof -
  have blank: "list_all is_js_whitespace
     (userInput ((initial_state True True)\<lparr>apiConnected := True, userInput := lit ''   ''\<rparr>))"
    by (simp add: lit_def is_js_whitespace_def)
  show ?thesis
    using blank blank_command_rejected [OF blank] by (simp add: initial_state_def)
qed

end
